theory Spec2Isabelle
  imports Complex_Main
begin

section \<open>Conversation state tracker (hooks/useConversationState.ts)\<close>

text \<open>
  The hook \<^verbatim>\<open>useConversationState\<close> keeps seven React state cells and updates them from
  event handlers. The model is a record of the seven cells and one function per handler,
  taking the cells before the event and returning the cells after it. Each handler runs to
  completion on the single UI thread, so the handlers are atomic steps; logging is omitted.

  JavaScript values are modelled as follows: \<^verbatim>\<open>string | null\<close> and an optional or missing
  property are \<open>option\<close> (\<open>None\<close> for \<^verbatim>\<open>null\<close>/\<^verbatim>\<open>undefined\<close>); a millisecond time stamp is
  \<open>int option\<close>, where \<open>None\<close> stands for \<^verbatim>\<open>NaN\<close>, the value \<^verbatim>\<open>getTime()\<close> gives for an
  invalid date.
\<close>

datatype Speaker = User | Bot

record Transcript =
  "text" :: string
  speaker :: Speaker
  timestamp :: "int option"
  final :: "bool option"

datatype Role = RoleUser | RoleAssistant

record TranscriptUpdate =
  role :: Role
  content :: string
  timestampISO :: string

datatype ConversationState = IDLE | USER_SPEAKING | BOT_PROCESSING | BOT_SPEAKING

record ConversationContext =
  state :: ConversationState
  isBotSpeaking :: bool
  isUserSpeaking :: bool
  isBotProcessing :: bool
  transcripts :: "Transcript list"
  lastUserTranscript :: "string option"
  lastBotTranscript :: "string option"

text \<open>The values the \<^verbatim>\<open>useState\<close> calls start from.\<close>

definition initialContext :: ConversationContext where
  "initialContext =
     \<lparr>state = IDLE, isBotSpeaking = False, isUserSpeaking = False, isBotProcessing = False,
      transcripts = [], lastUserTranscript = None, lastBotTranscript = None\<rparr>"

text \<open>
  The payload of a transcript event is typed \<^verbatim>\<open>any\<close> in the source; the handlers read its
  properties \<^verbatim>\<open>text\<close> and \<^verbatim>\<open>final\<close>, either of which may be missing, and the payload itself
  may be missing (\<^verbatim>\<open>data?.text\<close>).
\<close>

record TranscriptData =
  dataText :: "string option"
  dataFinal :: "bool option"

text \<open>JavaScript truthiness of an optional string and of an optional boolean.\<close>

definition truthyString :: "string option \<Rightarrow> bool" where
  "truthyString v = (case v of None \<Rightarrow> False | Some s \<Rightarrow> s \<noteq> [])"

definition truthyBool :: "bool option \<Rightarrow> bool" where
  "truthyBool v = (case v of None \<Rightarrow> False | Some b \<Rightarrow> b)"

text \<open>
  The events the hook listens to: the eight transport events and the two window-level
  custom events of the audio-frame detection.
\<close>

datatype RTVIEvent =
    BotStartedSpeaking
  | BotStoppedSpeaking
  | WindowBotStartedSpeaking
  | WindowBotStoppedSpeaking
  | UserStartedSpeaking
  | UserStoppedSpeaking
  | BotLlmStarted
  | BotLlmStopped
  | UserTranscript "TranscriptData option"
  | BotTranscript "TranscriptData option"

definition transitionTo :: "ConversationState \<Rightarrow> ConversationContext \<Rightarrow> ConversationContext" where
  "transitionTo newState c = c\<lparr>state := newState\<rparr>"

definition handleBotStartedSpeaking :: "ConversationContext \<Rightarrow> ConversationContext" where
  "handleBotStartedSpeaking c = transitionTo BOT_SPEAKING (c\<lparr>isBotSpeaking := True\<rparr>)"

definition handleBotStoppedSpeaking :: "ConversationContext \<Rightarrow> ConversationContext" where
  "handleBotStoppedSpeaking c = transitionTo IDLE (c\<lparr>isBotSpeaking := False\<rparr>)"

definition handleUserStartedSpeaking :: "ConversationContext \<Rightarrow> ConversationContext" where
  "handleUserStartedSpeaking c = transitionTo USER_SPEAKING (c\<lparr>isUserSpeaking := True\<rparr>)"

definition handleUserStoppedSpeaking :: "ConversationContext \<Rightarrow> ConversationContext" where
  "handleUserStoppedSpeaking c =
     (transitionTo BOT_PROCESSING (c\<lparr>isUserSpeaking := False\<rparr>))\<lparr>isBotProcessing := True\<rparr>"

definition handleBotLlmStarted :: "ConversationContext \<Rightarrow> ConversationContext" where
  "handleBotLlmStarted c = c\<lparr>isBotProcessing := True\<rparr>"

definition handleBotLlmStopped :: "ConversationContext \<Rightarrow> ConversationContext" where
  "handleBotLlmStopped c = c\<lparr>isBotProcessing := False\<rparr>"

text \<open>
  The user transcript handler; \<open>now\<close> is the value of \<^verbatim>\<open>Date.now()\<close>. The transcript object
  is built whenever the text is truthy, and used only when \<^verbatim>\<open>data.final\<close> is truthy.
\<close>

definition handleUserTranscript ::
  "int \<Rightarrow> TranscriptData option \<Rightarrow> ConversationContext \<Rightarrow> ConversationContext" where
  "handleUserTranscript now dat c =
     (case dat of
        None \<Rightarrow> c
      | Some d \<Rightarrow>
          (case dataText d of
             None \<Rightarrow> c
           | Some txt \<Rightarrow>
               if txt \<noteq> [] then
                 (let transcript =
                        \<lparr>text = txt, speaker = User, timestamp = Some now,
                         final = Some (truthyBool (dataFinal d))\<rparr>
                  in if truthyBool (dataFinal d)
                     then c\<lparr>lastUserTranscript := Some txt,
                            transcripts := transcripts c @ [transcript]\<rparr>
                     else c)
               else c))"

definition handleBotTranscript ::
  "int \<Rightarrow> TranscriptData option \<Rightarrow> ConversationContext \<Rightarrow> ConversationContext" where
  "handleBotTranscript now dat c =
     (case dat of
        None \<Rightarrow> c
      | Some d \<Rightarrow>
          (case dataText d of
             None \<Rightarrow> c
           | Some txt \<Rightarrow>
               if txt \<noteq> [] then
                 (let transcript =
                        \<lparr>text = txt, speaker = Bot, timestamp = Some now, final = Some True\<rparr>
                  in c\<lparr>lastBotTranscript := Some txt,
                        transcripts := transcripts c @ [transcript]\<rparr>)
               else c))"

text \<open>One event, dispatched to the handler registered for it.\<close>

fun ingestEvent :: "int \<Rightarrow> RTVIEvent \<Rightarrow> ConversationContext \<Rightarrow> ConversationContext" where
  "ingestEvent now BotStartedSpeaking c = handleBotStartedSpeaking c"
| "ingestEvent now BotStoppedSpeaking c = handleBotStoppedSpeaking c"
| "ingestEvent now WindowBotStartedSpeaking c = handleBotStartedSpeaking c"
| "ingestEvent now WindowBotStoppedSpeaking c = handleBotStoppedSpeaking c"
| "ingestEvent now UserStartedSpeaking c = handleUserStartedSpeaking c"
| "ingestEvent now UserStoppedSpeaking c = handleUserStoppedSpeaking c"
| "ingestEvent now BotLlmStarted c = handleBotLlmStarted c"
| "ingestEvent now BotLlmStopped c = handleBotLlmStopped c"
| "ingestEvent now (UserTranscript dat) c = handleUserTranscript now dat c"
| "ingestEvent now (BotTranscript dat) c = handleBotTranscript now dat c"

text \<open>A sequence of events in delivery order, each with the clock reading at its arrival.\<close>

fun ingestAll :: "(int \<times> RTVIEvent) list \<Rightarrow> ConversationContext \<Rightarrow> ConversationContext" where
  "ingestAll [] c = c"
| "ingestAll ((now, e) # es) c = ingestAll es (ingestEvent now e c)"

definition clearTranscripts :: "ConversationContext \<Rightarrow> ConversationContext" where
  "clearTranscripts c =
     c\<lparr>transcripts := [], lastUserTranscript := None, lastBotTranscript := None\<rparr>"

definition addTranscript :: "Transcript \<Rightarrow> ConversationContext \<Rightarrow> ConversationContext" where
  "addTranscript transcript c =
     (let c' = c\<lparr>transcripts := transcripts c @ [transcript]\<rparr>
      in if speaker transcript = User
         then c'\<lparr>lastUserTranscript := Some (text transcript)\<rparr>
         else c'\<lparr>lastBotTranscript := Some (text transcript)\<rparr>)"

text \<open>
  \<^verbatim>\<open>Math.abs(t.timestamp - timestamp) < 1000\<close>: a comparison with \<^verbatim>\<open>NaN\<close> on either side is
  false.
\<close>

definition withinTolerance :: "int option \<Rightarrow> int option \<Rightarrow> bool" where
  "withinTolerance a b =
     (case a of
        None \<Rightarrow> False
      | Some x \<Rightarrow> (case b of None \<Rightarrow> False | Some y \<Rightarrow> \<bar>x - y\<bar> < 1000))"

text \<open>
  The handler of the out-of-band transcript updates. \<open>getTime\<close> stands for
  \<^verbatim>\<open>new Date(s).getTime()\<close>, the parser of the JavaScript runtime: the milliseconds since
  the epoch, or \<open>None\<close> (\<^verbatim>\<open>NaN\<close>) when the string is not a date.
\<close>

definition speakerOf :: "Role \<Rightarrow> Speaker" where
  "speakerOf r = (if r = RoleAssistant then Bot else User)"

definition isDuplicate :: "TranscriptUpdate \<Rightarrow> int option \<Rightarrow> Transcript list \<Rightarrow> bool" where
  "isDuplicate update ts prev =
     list_ex (\<lambda>t. text t = content update \<and> speaker t = speakerOf (role update) \<and>
                  withinTolerance (timestamp t) ts) prev"

definition handleTranscriptUpdate ::
  "(string \<Rightarrow> int option) \<Rightarrow> TranscriptUpdate \<Rightarrow> ConversationContext \<Rightarrow> ConversationContext" where
  "handleTranscriptUpdate getTime update c =
     (let ts = getTime (timestampISO update);
          isAssistant = (role update = RoleAssistant);
          transcript = \<lparr>text = content update, speaker = (if isAssistant then Bot else User),
                        timestamp = ts, final = Some True\<rparr>;
          c1 = (if isAssistant then c\<lparr>lastBotTranscript := Some (content update)\<rparr>
                else c\<lparr>lastUserTranscript := Some (content update)\<rparr>)
      in c1\<lparr>transcripts :=
              (if isDuplicate update ts (transcripts c1) then transcripts c1
               else transcripts c1 @ [transcript])\<rparr>)"

section \<open>Connection manager (hooks/useConnectionManager.ts)\<close>

text \<open>
  The hook \<^verbatim>\<open>useConnectionManager\<close> keeps one state object. Numbers that the source
  computes in floating point (the delays, the multiplier, the random draw) are modelled as
  real numbers, so the options are finite numbers; the attempt counter only ever holds 0 or
  a successor and is a natural number, as is the bound it is compared with.
\<close>

record ConnectionState =
  isConnected :: bool
  isConnecting :: bool
  isReconnecting :: bool
  reconnectAttempts :: nat
  lastError :: "string option"
  transportState :: string

text \<open>The options object: every property may be missing.\<close>

record ConnectionManagerOptions =
  optMaxReconnectAttempts :: "nat option"
  optReconnectDelay :: "real option"
  optMaxReconnectDelay :: "real option"
  optReconnectBackoffMultiplier :: "real option"

text \<open>The four constants the hook destructures from the options, defaults filled in.\<close>

record Config =
  maxReconnectAttempts :: nat
  reconnectDelay :: real
  maxReconnectDelay :: real
  reconnectBackoffMultiplier :: real

definition withDefaults :: "ConnectionManagerOptions \<Rightarrow> Config" where
  "withDefaults options =
     \<lparr>maxReconnectAttempts = (case optMaxReconnectAttempts options of None \<Rightarrow> 5 | Some n \<Rightarrow> n),
      reconnectDelay = (case optReconnectDelay options of None \<Rightarrow> 1000 | Some d \<Rightarrow> d),
      maxReconnectDelay = (case optMaxReconnectDelay options of None \<Rightarrow> 30000 | Some d \<Rightarrow> d),
      reconnectBackoffMultiplier =
        (case optReconnectBackoffMultiplier options of None \<Rightarrow> 3 / 2 | Some m \<Rightarrow> m)\<rparr>"

text \<open>The hook called with no argument: \<^verbatim>\<open>options = {}\<close>.\<close>

definition noOptions :: ConnectionManagerOptions where
  "noOptions =
     \<lparr>optMaxReconnectAttempts = None, optReconnectDelay = None,
      optMaxReconnectDelay = None, optReconnectBackoffMultiplier = None\<rparr>"

definition defaultConfig :: Config where
  "defaultConfig = withDefaults noOptions"

text \<open>
  The state the hook starts from; \<open>t0\<close> is the transport state at mount, the empty string
  when the transport reports none (\<^verbatim>\<open>transportState || "disconnected"\<close>).
\<close>

definition initialState :: "string \<Rightarrow> ConnectionState" where
  "initialState t0 =
     \<lparr>isConnected = False, isConnecting = False, isReconnecting = False,
      reconnectAttempts = 0, lastError = None,
      transportState = (if t0 = [] then ''disconnected'' else t0)\<rparr>"

text \<open>
  The effect that runs when the transport state changes: two functional state updates, the
  second only for a connected or ready transport.
\<close>

definition onTransportState :: "string \<Rightarrow> ConnectionState \<Rightarrow> ConnectionState" where
  "onTransportState t prev =
     (if t = [] then prev
      else
        (let s1 = prev\<lparr>transportState := t,
                       isConnected := (t = ''connected'' \<or> t = ''ready''),
                       isConnecting := (t = ''connecting''),
                       isReconnecting := (isReconnecting prev \<and> t = ''connecting'')\<rparr>
         in if t = ''connected'' \<or> t = ''ready''
            then s1\<lparr>reconnectAttempts := 0, isReconnecting := False\<rparr>
            else s1))"

text \<open>
  \<open>rnd\<close> is the value of \<^verbatim>\<open>Math.random()\<close>, a number in the half-open interval from 0
  to 1.
\<close>

definition calculateReconnectDelay :: "Config \<Rightarrow> real \<Rightarrow> nat \<Rightarrow> real" where
  "calculateReconnectDelay cfg rnd attempts =
     (let baseDelay = reconnectDelay cfg * reconnectBackoffMultiplier cfg ^ attempts;
          jitter = 4 / 5 + rnd * (2 / 5)
      in min (baseDelay * jitter) (maxReconnectDelay cfg))"

text \<open>
  The handler of the transport's disconnect event. It reads \<^verbatim>\<open>connectionState\<close>, the state
  of the render that registered it, and updates \<open>prev\<close>, the state at the time of the
  update. The result is the new state and the delay of the timer it sets, if it sets one.
\<close>

definition handleDisconnect ::
  "Config \<Rightarrow> real \<Rightarrow> ConnectionState \<Rightarrow> ConnectionState \<Rightarrow> ConnectionState \<times> real option" where
  "handleDisconnect cfg rnd connectionState prev =
     (if isConnected connectionState \<and>
         reconnectAttempts connectionState < maxReconnectAttempts cfg
      then
        (let nextAttempt = reconnectAttempts connectionState + 1;
             delay = calculateReconnectDelay cfg rnd nextAttempt
         in (prev\<lparr>isReconnecting := True, reconnectAttempts := nextAttempt\<rparr>, Some delay))
      else if reconnectAttempts connectionState \<ge> maxReconnectAttempts cfg
      then (prev\<lparr>isReconnecting := False,
                 lastError := Some ''Maximum reconnection attempts reached''\<rparr>, None)
      else (prev, None))"

text \<open>\<^verbatim>\<open>message || fallback\<close>, for a message that is a string or missing.\<close>

definition messageOr :: "string option \<Rightarrow> string \<Rightarrow> string" where
  "messageOr msg fallback =
     (case msg of None \<Rightarrow> fallback | Some m \<Rightarrow> if m = [] then fallback else m)"

text \<open>
  The value a handler receives as its error (typed \<^verbatim>\<open>any\<close>): \<^verbatim>\<open>null\<close> or \<^verbatim>\<open>undefined\<close>, or a
  value whose \<^verbatim>\<open>message\<close> property is a string or missing. Reading \<^verbatim>\<open>error?.message\<close> of a
  nullish value gives \<^verbatim>\<open>undefined\<close>; reading \<^verbatim>\<open>error.message\<close> of it throws a TypeError.
\<close>

datatype ErrorValue = Nullish | ErrorObject "string option"

datatype JsError = TypeError

definition optionalMessage :: "ErrorValue \<Rightarrow> string option" where
  "optionalMessage err = (case err of Nullish \<Rightarrow> None | ErrorObject m \<Rightarrow> m)"

definition readMessage :: "ErrorValue \<Rightarrow> JsError + string option" where
  "readMessage err = (case err of Nullish \<Rightarrow> Inl TypeError | ErrorObject m \<Rightarrow> Inr m)"

text \<open>The handler of the transport's error event: \<^verbatim>\<open>error?.message || "Unknown error"\<close>.\<close>

definition handleError :: "ErrorValue \<Rightarrow> ConnectionState \<Rightarrow> ConnectionState" where
  "handleError err prev =
     prev\<lparr>lastError := Some (messageOr (optionalMessage err) ''Unknown error'')\<rparr>"

text \<open>
  The rejection of the \<^verbatim>\<open>client.connect()\<close> that the reconnection timer calls. The state
  update reads \<^verbatim>\<open>error.message\<close> without optional chaining, so it throws for a nullish
  reason and no state is produced.
\<close>

definition reconnectFailed :: "ErrorValue \<Rightarrow> ConnectionState \<Rightarrow> JsError + ConnectionState" where
  "reconnectFailed err prev =
     (case readMessage err of
        Inl e \<Rightarrow> Inl e
      | Inr m \<Rightarrow>
          Inr (prev\<lparr>lastError := Some (''Reconnection failed: '' @ messageOr m ''Unknown error'')\<rparr>))"

text \<open>
  \<^verbatim>\<open>connect()\<close> is asynchronous: the update before the \<^verbatim>\<open>await\<close>, and the update after it
  when the transport's promise resolves or rejects. The update of the \<^verbatim>\<open>catch\<close> block reads
  \<^verbatim>\<open>error.message\<close> without optional chaining as well.
\<close>

definition connectStarted :: "ConnectionState \<Rightarrow> ConnectionState" where
  "connectStarted prev = prev\<lparr>isConnecting := True, lastError := None\<rparr>"

definition connectResolved :: "ConnectionState \<Rightarrow> ConnectionState" where
  "connectResolved prev = prev\<lparr>isConnecting := False, reconnectAttempts := 0\<rparr>"

definition connectRejected :: "ErrorValue \<Rightarrow> ConnectionState \<Rightarrow> JsError + ConnectionState" where
  "connectRejected err prev =
     (case readMessage err of
        Inl e \<Rightarrow> Inl e
      | Inr m \<Rightarrow>
          Inr (prev\<lparr>isConnecting := False,
                    lastError := Some (messageOr m ''Connection failed'')\<rparr>))"

definition disconnectResolved :: "ConnectionState \<Rightarrow> ConnectionState" where
  "disconnectResolved prev =
     prev\<lparr>isConnected := False, isConnecting := False, isReconnecting := False\<rparr>"

definition clearError :: "ConnectionState \<Rightarrow> ConnectionState" where
  "clearError prev = prev\<lparr>lastError := None\<rparr>"

text \<open>
  The mounted hook. Every state update of the source is a functional update
  (\<^verbatim>\<open>prev => ...\<close>), so the updates take effect in the order they are made: \<open>latest\<close> is the
  state with every update applied. The handlers do not see \<open>latest\<close>: the disconnect handler
  reads the \<^verbatim>\<open>connectionState\<close> of the render whose effect registered it, and a render
  that changes neither of the two fields it reads keeps the handler. \<open>rendered\<close> is the
  state of the most recent render, which agrees on those two fields with the state the
  registered handler closed over. \<open>transportValue\<close> is the value of
  \<^verbatim>\<open>useRTVIClientTransportState()\<close> at that render, the dependency of the transport effect;
  the empty string stands for a missing value.
\<close>

record Hook =
  latest :: ConnectionState
  rendered :: ConnectionState
  transportValue :: string

text \<open>
  The first render with transport value \<open>t0\<close> and the effects after it: the handlers are
  registered with the initial state, and the transport effect runs once.
\<close>

definition mount :: "string \<Rightarrow> Hook" where
  "mount t0 =
     \<lparr>latest = onTransportState t0 (initialState t0), rendered = initialState t0,
      transportValue = t0\<rparr>"

text \<open>
  Everything that can change the hook. \<open>Render\<close> is a render of the component with an
  unchanged transport value, followed by its effects. \<open>TransportStateChanged\<close> is the
  transport value changing, with the render and the effects that follow. \<open>Disconnected\<close>
  carries the random draw of the jitter. The handlers of \<open>Disconnected\<close> and \<open>ErrorEvent\<close>
  are registered only when a client exists, and \<^verbatim>\<open>connect\<close> and \<^verbatim>\<open>disconnect\<close> return at
  once when none does.
\<close>

datatype ConnectionEvent =
    Render
  | TransportStateChanged string
  | Disconnected real
  | ErrorEvent ErrorValue
  | ReconnectRejected ErrorValue
  | ConnectCalled
  | ConnectResolved
  | ConnectRejected ErrorValue
  | DisconnectResolved
  | DisconnectRejected
  | ClearError

text \<open>
  One step of the hook: a TypeError, or the new hook and the delay of the reconnection
  timer the step sets, if any. A render hands the latest state to the handlers. The
  transport effect runs only when its dependency has changed; the render it belongs to
  sees the state before the effect's updates. The disconnect handler runs with the
  rendered state as its \<^verbatim>\<open>connectionState\<close> and updates the latest state.
\<close>

fun step :: "Config \<Rightarrow> bool \<Rightarrow> ConnectionEvent \<Rightarrow> Hook \<Rightarrow> JsError + Hook \<times> real option" where
  "step cfg client Render h = Inr (h\<lparr>rendered := latest h\<rparr>, None)"
| "step cfg client (TransportStateChanged t) h =
     (if t = transportValue h then Inr (h, None)
      else Inr (h\<lparr>rendered := latest h, latest := onTransportState t (latest h),
                  transportValue := t\<rparr>, None))"
| "step cfg client (Disconnected rnd) h =
     (if client
      then (case handleDisconnect cfg rnd (rendered h) (latest h) of
              (s', out) \<Rightarrow> Inr (h\<lparr>latest := s'\<rparr>, out))
      else Inr (h, None))"
| "step cfg client (ErrorEvent err) h =
     Inr (if client then h\<lparr>latest := handleError err (latest h)\<rparr> else h, None)"
| "step cfg client (ReconnectRejected err) h =
     (if client
      then (case reconnectFailed err (latest h) of
              Inl e \<Rightarrow> Inl e
            | Inr s' \<Rightarrow> Inr (h\<lparr>latest := s'\<rparr>, None))
      else Inr (h, None))"
| "step cfg client ConnectCalled h =
     Inr (if client then h\<lparr>latest := connectStarted (latest h)\<rparr> else h, None)"
| "step cfg client ConnectResolved h =
     Inr (if client then h\<lparr>latest := connectResolved (latest h)\<rparr> else h, None)"
| "step cfg client (ConnectRejected err) h =
     (if client
      then (case connectRejected err (latest h) of
              Inl e \<Rightarrow> Inl e
            | Inr s' \<Rightarrow> Inr (h\<lparr>latest := s'\<rparr>, None))
      else Inr (h, None))"
| "step cfg client DisconnectResolved h =
     Inr (if client then h\<lparr>latest := disconnectResolved (latest h)\<rparr> else h, None)"
| "step cfg client DisconnectRejected h = Inr (h, None)"
| "step cfg client ClearError h = Inr (h\<lparr>latest := clearError (latest h)\<rparr>, None)"

text \<open>
  A sequence of events: the final hook and the delays of the timers set, oldest first. A
  TypeError ends the run.
\<close>

fun run :: "Config \<Rightarrow> bool \<Rightarrow> ConnectionEvent list \<Rightarrow> Hook \<Rightarrow> JsError + Hook \<times> real list" where
  "run cfg client [] h = Inr (h, [])"
| "run cfg client (e # es) h =
     (case step cfg client e h of
        Inl err \<Rightarrow> Inl err
      | Inr (h', out) \<Rightarrow>
          (case run cfg client es h' of
             Inl err \<Rightarrow> Inl err
           | Inr (h'', outs) \<Rightarrow> Inr (h'', (case out of None \<Rightarrow> [] | Some d \<Rightarrow> [d]) @ outs)))"

text \<open>
  The state of a hook mounted on a connected transport, and that hook after its next
  render, when the handlers have seen the connection.
\<close>

definition freshlyConnected :: ConnectionState where
  "freshlyConnected = onTransportState ''connected'' (initialState [])"

definition connectedHook :: Hook where
  "connectedHook =
     \<lparr>latest = freshlyConnected, rendered = freshlyConnected, transportValue = ''connected''\<rparr>"



text \<open>The disconnect events of a list of draws, each followed by a render.\<close>

definition disconnectsRendered :: "real list \<Rightarrow> ConnectionEvent list" where
  "disconnectsRendered rs = concat (map (\<lambda>r. [Disconnected r, Render]) rs)"


definition connectedInv :: "bool \<Rightarrow> Hook \<Rightarrow> bool" where
  "connectedInv ever h \<longleftrightarrow>
     (isConnected (latest h) \<longrightarrow>
        (transportState (latest h) = ''connected'' \<or> transportState (latest h) = ''ready'') \<and> ever) \<and>
     (isConnected (rendered h) \<longrightarrow>
        (transportState (rendered h) = ''connected'' \<or> transportState (rendered h) = ''ready'') \<and>
        ever) \<and>
     (isReconnecting (latest h) \<longrightarrow> ever)"

definition exhaustedInv :: "Config \<Rightarrow> Hook \<Rightarrow> bool" where
  "exhaustedInv cfg h \<longleftrightarrow>
     maxReconnectAttempts cfg \<le> reconnectAttempts (latest h) \<and>
     maxReconnectAttempts cfg \<le> reconnectAttempts (rendered h) \<and>
     \<not> isReconnecting (latest h)"

text \<open>
  Sample inputs and readings for the examples: five draws of one half, the connected hook
  after one disconnect event that has not been rendered yet, and the state and the timers
  of a result.
\<close>

definition fives :: "real list" where
  "fives = [1 / 2, 1 / 2, 1 / 2, 1 / 2, 1 / 2]"

definition oneAttemptHook :: Hook where
  "oneAttemptHook =
     connectedHook\<lparr>latest := freshlyConnected\<lparr>isReconnecting := True, reconnectAttempts := 1\<rparr>\<rparr>"

definition stateAfter :: "JsError + Hook \<times> 'a \<Rightarrow> ConnectionState option" where
  "stateAfter r = (case r of Inl e \<Rightarrow> None | Inr (h, x) \<Rightarrow> Some (latest h))"

definition timersOf :: "JsError + Hook \<times> real list \<Rightarrow> real list" where
  "timersOf r = (case r of Inl e \<Rightarrow> [] | Inr (h, ds) \<Rightarrow> ds)"

text \<open>The entry the out-of-band handler builds from an update.\<close>

definition entryOf :: "(string \<Rightarrow> int option) \<Rightarrow> TranscriptUpdate \<Rightarrow> Transcript" where
  "entryOf getTime update =
     \<lparr>text = content update, speaker = speakerOf (role update),
      timestamp = getTime (timestampISO update), final = Some True\<rparr>"

text \<open>
  Sample inputs for the examples: a date parser that knows three time stamps and rejects
  every other string, a user update saying hello, and a context whose log holds that update
  followed by another user entry.
\<close>

definition clock :: "string \<Rightarrow> int option" where
  "clock s =
     (if s = ''1970-01-01T00:00:05.000Z'' then Some 5000
      else if s = ''1970-01-01T00:00:05.999Z'' then Some 5999
      else if s = ''1970-01-01T00:00:06.001Z'' then Some 6001
      else None)"

definition hello :: "string \<Rightarrow> TranscriptUpdate" where
  "hello stamp = \<lparr>role = RoleUser, content = ''hello'', timestampISO = stamp\<rparr>"

definition afterBye :: ConversationContext where
  "afterBye =
     addTranscript \<lparr>text = ''bye'', speaker = User, timestamp = Some 5500, final = Some True\<rparr>
       (handleTranscriptUpdate clock (hello ''1970-01-01T00:00:05.000Z'') initialContext)"

section \<open>Notions of the specification\<close>

text \<open>
  The transition table of the specification (section 4.1), written from its words: the
  phase an event assigns, or \<open>None\<close> for an event that changes no phase. Both channels of
  the bot-speaking events are covered; transcript events are not in the table.
\<close>

fun tablePhase :: "RTVIEvent \<Rightarrow> ConversationState option" where
  "tablePhase BotStartedSpeaking = Some BOT_SPEAKING"
| "tablePhase BotStoppedSpeaking = Some IDLE"
| "tablePhase WindowBotStartedSpeaking = Some BOT_SPEAKING"
| "tablePhase WindowBotStoppedSpeaking = Some IDLE"
| "tablePhase UserStartedSpeaking = Some USER_SPEAKING"
| "tablePhase UserStoppedSpeaking = Some BOT_PROCESSING"
| "tablePhase BotLlmStarted = None"
| "tablePhase BotLlmStopped = None"
| "tablePhase (UserTranscript d) = None"
| "tablePhase (BotTranscript d) = None"

text \<open>
  The phase of the most recent phase-changing event of a sequence, \<open>None\<close> when the sequence
  has no such event.
\<close>

definition lastPhaseChange :: "RTVIEvent list \<Rightarrow> ConversationState option" where
  "lastPhaseChange es =
     (case rev (List.map_filter tablePhase es) of [] \<Rightarrow> None | p # ps \<Rightarrow> Some p)"

text \<open>
  The specification's notions for the attempt counter and the prior connection. A
  transition of the raw transport state into a connected or ready value is a change of the
  transport value to one of the two. An event resets the counter when it is such a
  transition or the resolution of a \<^verbatim>\<open>connect()\<close> call. A prior successful connection
  exists when the transport reported a connected or ready value at mount or in an event.
\<close>

definition connectedValue :: "string \<Rightarrow> bool" where
  "connectedValue t \<longleftrightarrow> t = ''connected'' \<or> t = ''ready''"


definition reportsConnected :: "ConnectionEvent \<Rightarrow> bool" where
  "reportsConnected e = (case e of TransportStateChanged t \<Rightarrow> connectedValue t | _ \<Rightarrow> False)"

definition priorConnection :: "string \<Rightarrow> ConnectionEvent list \<Rightarrow> bool" where
  "priorConnection t0 es \<longleftrightarrow> connectedValue t0 \<or> list_ex reportsConnected es"

definition resetsCounter :: "ConnectionEvent \<Rightarrow> bool" where
  "resetsCounter e = (case e of ConnectResolved \<Rightarrow> True | _ \<Rightarrow> reportsConnected e)"

text \<open>
  The duplicate rule of the specification (section 3), written from its words: some
  existing entry has the same text, the same speaker and a time stamp within 1000 ms of the
  candidate's. ``Within 1000 ms'' is read as less than 1000 ms apart; a time stamp that is
  not a number is within no distance of any other.
\<close>

definition duplicateExists :: "string \<Rightarrow> Speaker \<Rightarrow> int option \<Rightarrow> Transcript list \<Rightarrow> bool" where
  "duplicateExists txt sp ts entries \<longleftrightarrow>
     (\<exists>t \<in> set entries. text t = txt \<and> speaker t = sp \<and>
        (case (timestamp t, ts) of (Some a, Some b) \<Rightarrow> \<bar>a - b\<bar> < 1000 | _ \<Rightarrow> False))"

section \<open>The conversation phase is decided by the last phase-changing event\<close>

lemma handleUserTranscript_state: "state (handleUserTranscript now d c) = state c"
  by (simp add: handleUserTranscript_def Let_def split: option.splits)

lemma handleBotTranscript_state: "state (handleBotTranscript now d c) = state c"
  by (simp add: handleBotTranscript_def Let_def split: option.splits)

lemmas speaking_defs =
  handleBotStartedSpeaking_def handleBotStoppedSpeaking_def handleUserStartedSpeaking_def
  handleUserStoppedSpeaking_def handleBotLlmStarted_def handleBotLlmStopped_def
  transitionTo_def

lemma ingestEvent_state:
  "state (ingestEvent now e c) = (case tablePhase e of None \<Rightarrow> state c | Some p \<Rightarrow> p)"
  by (cases e) (simp_all add: speaking_defs handleUserTranscript_state handleBotTranscript_state)

lemma lastPhaseChange_Nil: "lastPhaseChange [] = None"
  by (simp add: lastPhaseChange_def)

lemma lastPhaseChange_Cons:
  "lastPhaseChange (e # es) =
     (case lastPhaseChange es of None \<Rightarrow> tablePhase e | Some p \<Rightarrow> Some p)"
  by (cases "tablePhase e"; cases "rev (List.map_filter tablePhase es)")
     (simp_all add: lastPhaseChange_def)

lemma ingestAll_state:
  "state (ingestAll tes c) =
     (case lastPhaseChange (map snd tes) of None \<Rightarrow> state c | Some p \<Rightarrow> p)"
proof (induction tes arbitrary: c)
  case Nil
  show ?case by (simp add: lastPhaseChange_Nil)
next
  case (Cons te tes)
  obtain now e where te: "te = (now, e)" by (cases te)
  show ?case
    by (simp add: te Cons.IH lastPhaseChange_Cons ingestEvent_state split: option.splits)
qed

text \<open>
  Claim C1. After any sequence of events, from any starting context, the phase is the one
  the transition table assigns to the most recent phase-changing event of the sequence (the
  starting phase when there is none). In particular the sequence user-started,
  user-stopped, llm-started, llm-stopped, bot-started, bot-stopped ends in phase \<open>IDLE\<close>
  with the three flags false, whatever the starting context and the arrival times.
\<close>

theorem C1_phase_last_write_wins:
  "state (ingestAll tes c) =
     (case lastPhaseChange (map snd tes) of None \<Rightarrow> state c | Some p \<Rightarrow> p)
   \<and> (let c' = ingestAll [(t1, UserStartedSpeaking), (t2, UserStoppedSpeaking),
                  (t3, BotLlmStarted), (t4, BotLlmStopped), (t5, BotStartedSpeaking),
                  (t6, BotStoppedSpeaking)] c
      in state c' = IDLE \<and> \<not> isBotProcessing c' \<and> \<not> isUserSpeaking c' \<and> \<not> isBotSpeaking c')"
  by (simp add: ingestAll_state speaking_defs Let_def)

theorem C1_phase_last_write_wins_witness:
  "state (ingestAll [(10, UserStartedSpeaking), (20, BotLlmStarted), (30, BotStartedSpeaking),
                     (40, BotLlmStopped)] initialContext) = BOT_SPEAKING
   \<and> state (ingestAll [(1, UserStartedSpeaking), (2, UserStoppedSpeaking), (3, BotLlmStarted),
                  (4, BotLlmStopped), (5, BotStartedSpeaking), (6, BotStoppedSpeaking)]
               initialContext) = IDLE"
  using C1_phase_last_write_wins
    [where tes = "[(10, UserStartedSpeaking), (20, BotLlmStarted), (30, BotStartedSpeaking),
                   (40, BotLlmStopped)]"
       and c = initialContext and ?t1.0 = 1 and ?t2.0 = 2 and ?t3.0 = 3 and ?t4.0 = 4
       and ?t5.0 = 5 and ?t6.0 = 6]
  by (simp add: lastPhaseChange_def List.map_filter_simps Let_def)

section \<open>Reconnection: delay, guard and budget\<close>

lemma defaultConfig_values:
  "maxReconnectAttempts defaultConfig = 5" "reconnectDelay defaultConfig = 1000"
  "maxReconnectDelay defaultConfig = 30000" "reconnectBackoffMultiplier defaultConfig = 3 / 2"
  by (simp_all add: defaultConfig_def withDefaults_def noOptions_def)

lemma freshlyConnected_fields:
  "isConnected freshlyConnected" "reconnectAttempts freshlyConnected = 0"
  "\<not> isReconnecting freshlyConnected" "lastError freshlyConnected = None"
  "transportState freshlyConnected = ''connected''"
  by (simp_all add: freshlyConnected_def onTransportState_def initialState_def Let_def)

lemma mount_connected:
  "mount ''connected'' =
     \<lparr>latest = freshlyConnected, rendered = initialState ''connected'',
      transportValue = ''connected''\<rparr>"
  by (simp add: mount_def freshlyConnected_def onTransportState_def initialState_def Let_def)

lemma connectedHook_fields:
  "latest connectedHook = freshlyConnected" "rendered connectedHook = freshlyConnected"
  "transportValue connectedHook = ''connected''"
  by (simp_all add: connectedHook_def)

lemmas eval_defs =
  disconnectsRendered_def fives_def stateAfter_def timersOf_def mount_connected
  connectedHook_def handleDisconnect_def calculateReconnectDelay_def onTransportState_def
  initialState_def Let_def freshlyConnected_fields defaultConfig_values



lemma first_handle:
  "handleDisconnect defaultConfig (1 / 2) freshlyConnected freshlyConnected =
     (freshlyConnected\<lparr>isReconnecting := True, reconnectAttempts := 1\<rparr>, Some 1500)"
  by (simp add: handleDisconnect_def calculateReconnectDelay_def Let_def
        freshlyConnected_fields defaultConfig_values)





text \<open>
  Claim C3, as stated, fails for attempt 1: with the default configuration the first
  attempt after a connection is scheduled with exponent 1, and a draw of one half gives a
  delay of 1500 ms, outside the interval from 800 to 1200.
\<close>

theorem C3_counterexample:
  "reconnectAttempts freshlyConnected + 1 = 1
   \<and> snd (handleDisconnect defaultConfig (1 / 2) freshlyConnected freshlyConnected) = Some 1500
   \<and> \<not> ((800::real) \<le> 1500 \<and> (1500::real) \<le> 1200)"
  by (simp only: first_handle freshlyConnected_fields) simp

lemma calc_default:
  "calculateReconnectDelay defaultConfig rnd n = min (1000 * (3 / 2) ^ n * (4 / 5 + rnd * (2 / 5))) 30000"
  by (simp add: calculateReconnectDelay_def Let_def defaultConfig_values)

text \<open>
  Claim C3, amended. With the default configuration and any random draw in the half-open
  unit interval, the delay computed for attempt 1 lies between 1200 and 1800 ms, the delay
  computed for attempt 3 lies between 2700 and 4050 ms, and every computed delay, for any
  attempt and any draw, is at most 30000 ms.
\<close>

theorem C3_default_delay_ranges:
  "0 \<le> rnd \<Longrightarrow> rnd < 1 \<Longrightarrow>
   1200 \<le> calculateReconnectDelay defaultConfig rnd 1
   \<and> calculateReconnectDelay defaultConfig rnd 1 \<le> 1800
   \<and> 2700 \<le> calculateReconnectDelay defaultConfig rnd 3
   \<and> calculateReconnectDelay defaultConfig rnd 3 \<le> 4050
   \<and> (\<forall>r n. calculateReconnectDelay defaultConfig r n \<le> 30000)"
  by (simp add: calc_default power3_eq_cube min_def)

theorem C3_default_delay_ranges_witness:
  "(0::real) \<le> 1 / 2 \<and> (1 / 2 :: real) < 1
   \<and> calculateReconnectDelay defaultConfig (1 / 2) 1 = 1500
   \<and> calculateReconnectDelay defaultConfig (1 / 2) 3 = 3375
   \<and> 1200 \<le> calculateReconnectDelay defaultConfig (1 / 2) 1
   \<and> calculateReconnectDelay defaultConfig (1 / 2) 3 \<le> 4050"
  using C3_default_delay_ranges [of "1 / 2"]
  by (simp add: calc_default power3_eq_cube)

text \<open>
  Claim C4, at an input where the source departs from it. A hook mounted on a connected
  transport renders, and then two disconnect events arrive before the next render. Both
  events pass the guard and each sets a timer of 1500 ms, but the second does not add 1 to
  the attempt counter: both compute the next attempt from the count of the same render, so
  the counter is 1 after the first event and still 1 after the second.
\<close>

theorem C4_stale_count_evaluation:
  "run defaultConfig True [Render, Disconnected (1 / 2), Disconnected (1 / 2)]
     (mount ''connected'') =
     Inr (connectedHook\<lparr>latest := freshlyConnected\<lparr>isReconnecting := True,
                                                  reconnectAttempts := 1\<rparr>\<rparr>,
          [1500, 1500])"
  by (simp add: mount_connected connectedHook_def handleDisconnect_def
        calculateReconnectDelay_def Let_def freshlyConnected_fields defaultConfig_values)

text \<open>Consecutive disconnect events, each followed by a render.\<close>

lemma disconnectsRendered_simps:
  "disconnectsRendered [] = []"
  "disconnectsRendered (r # rs) = Disconnected r # Render # disconnectsRendered rs"
  by (simp_all add: disconnectsRendered_def)

lemma step_disconnect_rendered:
  assumes "rendered h = latest h" "isConnected (latest h)"
    "reconnectAttempts (latest h) < maxReconnectAttempts cfg"
  shows "step cfg True (Disconnected r) h =
           Inr (h\<lparr>latest := (latest h)\<lparr>isReconnecting := True,
                                       reconnectAttempts := reconnectAttempts (latest h) + 1\<rparr>\<rparr>,
                Some (calculateReconnectDelay cfg r (reconnectAttempts (latest h) + 1)))"
  using assms by (simp add: handleDisconnect_def Let_def)

lemma run_disconnectsRendered:
  "rendered h = latest h \<Longrightarrow> isConnected (latest h) \<Longrightarrow>
   reconnectAttempts (latest h) + length rs \<le> maxReconnectAttempts cfg \<Longrightarrow> rs \<noteq> [] \<Longrightarrow>
   \<exists>ds. run cfg True (disconnectsRendered rs) h =
          Inr (h\<lparr>latest := (latest h)\<lparr>isReconnecting := True,
                     reconnectAttempts := reconnectAttempts (latest h) + length rs\<rparr>,
                 rendered := (latest h)\<lparr>isReconnecting := True,
                     reconnectAttempts := reconnectAttempts (latest h) + length rs\<rparr>\<rparr>, ds)
        \<and> length ds = length rs"
proof (induction rs arbitrary: h)
  case Nil
  then show ?case by simp
next
  case (Cons r rs)
  let ?s1 = "(latest h)\<lparr>isReconnecting := True,
                         reconnectAttempts := Suc (reconnectAttempts (latest h))\<rparr>"
  let ?h1 = "h\<lparr>latest := ?s1, rendered := ?s1\<rparr>"
  let ?d = "calculateReconnectDelay cfg r (Suc (reconnectAttempts (latest h)))"
  have st: "step cfg True (Disconnected r) h = Inr (h\<lparr>latest := ?s1\<rparr>, Some ?d)"
    using step_disconnect_rendered [of h cfg r] Cons.prems by simp
  have rd: "step cfg True Render (h\<lparr>latest := ?s1\<rparr>) = Inr (?h1, None)"
    by simp
  show ?case
  proof (cases "rs = []")
    case True
    then show ?thesis
      by (simp add: disconnectsRendered_simps st rd del: step.simps)
  next
    case False
    have "rendered ?h1 = latest ?h1" "isConnected (latest ?h1)"
      "reconnectAttempts (latest ?h1) + length rs \<le> maxReconnectAttempts cfg"
      using Cons.prems by simp_all
    from Cons.IH [OF this False] obtain ds where
      ih: "run cfg True (disconnectsRendered rs) ?h1 =
          Inr (?h1\<lparr>latest := (latest ?h1)\<lparr>isReconnecting := True,
                     reconnectAttempts := reconnectAttempts (latest ?h1) + length rs\<rparr>,
                 rendered := (latest ?h1)\<lparr>isReconnecting := True,
                     reconnectAttempts := reconnectAttempts (latest ?h1) + length rs\<rparr>\<rparr>, ds)"
      and len: "length ds = length rs"
      by blast
    show ?thesis
      by (rule exI [of _ "?d # ds"])
         (simp add: disconnectsRendered_simps st rd ih len del: step.simps)
  qed
qed

lemma step_disconnect_exhausted:
  "maxReconnectAttempts cfg \<le> reconnectAttempts (rendered h) \<Longrightarrow>
   step cfg True (Disconnected r) h =
     Inr (h\<lparr>latest := (latest h)\<lparr>isReconnecting := False,
                 lastError := Some ''Maximum reconnection attempts reached''\<rparr>\<rparr>, None)"
  by (simp add: handleDisconnect_def)

lemma onTransportState_attempts_other:
  "\<not> connectedValue t \<Longrightarrow>
   reconnectAttempts (onTransportState t s) = reconnectAttempts s"
  by (simp add: onTransportState_def Let_def connectedValue_def)

lemma onTransportState_reconnecting:
  "isReconnecting (onTransportState t s) \<Longrightarrow> isReconnecting s"
  by (auto simp: onTransportState_def Let_def split: if_splits)

lemma exhaustedInv_step:
  assumes "exhaustedInv cfg h" "\<not> resetsCounter e" "step cfg client e h = Inr (h', out)"
  shows "exhaustedInv cfg h' \<and> out = None"
proof (cases e)
  case (TransportStateChanged t)
  then have "\<not> connectedValue t"
    using assms(2) by (simp add: resetsCounter_def reportsConnected_def)
  then show ?thesis
    using assms(1,3) TransportStateChanged onTransportState_reconnecting [of t "latest h"]
    by (auto simp: exhaustedInv_def onTransportState_attempts_other split: if_splits)
next
  case (Disconnected r)
  then show ?thesis
    using assms(1,3) by (auto simp: exhaustedInv_def handleDisconnect_def split: if_splits)
next
  case ConnectResolved
  then show ?thesis using assms(2) by (simp add: resetsCounter_def)
qed (use assms in \<open>auto simp: exhaustedInv_def handleError_def reconnectFailed_def
       connectStarted_def connectRejected_def disconnectResolved_def clearError_def
       split: if_splits sum.splits\<close>)

lemma exhaustedInv_run:
  "exhaustedInv cfg h \<Longrightarrow> \<not> list_ex resetsCounter es \<Longrightarrow>
   run cfg client es h = Inr (h', outs) \<Longrightarrow> exhaustedInv cfg h' \<and> outs = []"
proof (induction es arbitrary: h h' outs)
  case Nil
  then show ?case by simp
next
  case (Cons e es)
  from Cons.prems(3) obtain h1 out outs1 where
    st: "step cfg client e h = Inr (h1, out)" and
    rn: "run cfg client es h1 = Inr (h', outs1)" and
    os: "outs = (case out of None \<Rightarrow> [] | Some d \<Rightarrow> [d]) @ outs1"
    by (auto split: sum.splits prod.splits simp del: step.simps)
  have e: "\<not> resetsCounter e" and es: "\<not> list_ex resetsCounter es"
    using Cons.prems(2) by simp_all
  have "exhaustedInv cfg h1 \<and> out = None"
    using exhaustedInv_step [OF Cons.prems(1) e st] .
  then show ?case
    using Cons.IH [OF _ es rn] os by simp
qed

text \<open>
  Claim C5, as stated, fails in two places. After 5 consecutive disconnect events from a
  hook mounted on a connected transport, each followed by a render, with the default bound
  of 5, five attempts have been scheduled, the reconnecting flag is still set and
  \<open>lastError\<close> is still empty. And leaving the reconnecting phase does not last until a
  manual \<^verbatim>\<open>connect()\<close>: after the 6th disconnect event, when the transport reports
  \<^verbatim>\<open>disconnected\<close> and then \<^verbatim>\<open>connected\<close> again (as it does when an attempt that was
  already scheduled succeeds), the next disconnect event sets the flag and a sixth timer,
  with no call of the hook's \<^verbatim>\<open>connect()\<close> in between.
\<close>

theorem C5_counterexample:
  "map_option isReconnecting (stateAfter
      (run defaultConfig True (Render # disconnectsRendered fives) (mount ''connected''))) = Some True
   \<and> map_option lastError (stateAfter
      (run defaultConfig True (Render # disconnectsRendered fives) (mount ''connected''))) = Some None
   \<and> length (timersOf
      (run defaultConfig True (Render # disconnectsRendered fives) (mount ''connected''))) = 5
   \<and> map_option isReconnecting (stateAfter
      (run defaultConfig True
         (Render # disconnectsRendered fives @
          [Disconnected (1 / 2), TransportStateChanged ''disconnected'',
           TransportStateChanged ''connected'', Render, Disconnected (1 / 2)])
         (mount ''connected''))) = Some True
   \<and> length (timersOf
      (run defaultConfig True
         (Render # disconnectsRendered fives @
          [Disconnected (1 / 2), TransportStateChanged ''disconnected'',
           TransportStateChanged ''connected'', Render, Disconnected (1 / 2)])
         (mount ''connected''))) = 6"
  by (simp add: eval_defs)

text \<open>
  Claim C5, amended. With \<open>maxReconnectAttempts = 5\<close>, from a rendered hook that is
  connected with no attempts counted, each of 5 consecutive disconnect events, each
  followed by a render, schedules an attempt, and afterwards the reconnecting flag is set,
  the counter is 5 and \<open>lastError\<close> is unchanged. The 6th disconnect event schedules no
  attempt, clears the reconnecting flag and sets \<open>lastError\<close> to the maximum-attempts
  message. From then on, until an event resets the counter (the resolution of a
  \<^verbatim>\<open>connect()\<close> call, or the transport reporting \<^verbatim>\<open>connected\<close> or \<^verbatim>\<open>ready\<close>), no event
  schedules an attempt and the reconnecting flag stays cleared. Disconnect events that
  arrive with no render between them are left out.
\<close>

theorem C5_sixth_disconnect_is_terminal:
  assumes "maxReconnectAttempts cfg = 5" and "rendered h = latest h"
    and "isConnected (latest h)" and "reconnectAttempts (latest h) = 0" and "length rs = 5"
  shows "\<exists>h5 d5 h6.
           run cfg True (disconnectsRendered rs) h = Inr (h5, d5) \<and> length d5 = 5 \<and>
           isReconnecting (latest h5) \<and> reconnectAttempts (latest h5) = 5 \<and>
           lastError (latest h5) = lastError (latest h) \<and>
           step cfg True (Disconnected r6) h5 = Inr (h6, None) \<and>
           \<not> isReconnecting (latest h6) \<and>
           lastError (latest h6) = Some ''Maximum reconnection attempts reached'' \<and>
           (\<forall>es h7 d7. \<not> list_ex resetsCounter es \<and> run cfg True es h6 = Inr (h7, d7) \<longrightarrow>
                d7 = [] \<and> \<not> isReconnecting (latest h7))"
proof -
  let ?s5 = "(latest h)\<lparr>isReconnecting := True, reconnectAttempts := 5\<rparr>"
  let ?h5 = "h\<lparr>latest := ?s5, rendered := ?s5\<rparr>"
  let ?h6 = "?h5\<lparr>latest := ?s5\<lparr>isReconnecting := False,
                     lastError := Some ''Maximum reconnection attempts reached''\<rparr>\<rparr>"
  have rs: "rs \<noteq> []" using assms(5) by auto
  obtain d5 where five: "run cfg True (disconnectsRendered rs) h = Inr (?h5, d5)"
    and len: "length d5 = 5"
    using run_disconnectsRendered [of h rs cfg] assms rs by auto
  have six: "step cfg True (Disconnected r6) ?h5 = Inr (?h6, None)"
    using step_disconnect_exhausted [of cfg ?h5 r6] assms(1) by simp
  have inv: "exhaustedInv cfg ?h6"
    using assms(1) by (simp add: exhaustedInv_def)
  have later: "\<forall>es h7 d7. \<not> list_ex resetsCounter es \<and> run cfg True es ?h6 = Inr (h7, d7) \<longrightarrow>
                d7 = [] \<and> \<not> isReconnecting (latest h7)"
    using exhaustedInv_run [OF inv] by (auto simp: exhaustedInv_def)
  show ?thesis
    using five len six later by (intro exI [of _ ?h5] exI [of _ d5] exI [of _ ?h6]) simp
qed

theorem C5_sixth_disconnect_is_terminal_witness:
  "maxReconnectAttempts defaultConfig = 5 \<and> rendered connectedHook = latest connectedHook
   \<and> isConnected (latest connectedHook) \<and> reconnectAttempts (latest connectedHook) = 0
   \<and> length fives = 5
   \<and> map_option lastError (stateAfter
        (run defaultConfig True (disconnectsRendered fives @ [Disconnected (1 / 2)])
           connectedHook)) = Some (Some ''Maximum reconnection attempts reached'')
   \<and> map_option isReconnecting (stateAfter
        (run defaultConfig True
           (disconnectsRendered fives @
            [Disconnected (1 / 2), ErrorEvent Nullish, Render, Disconnected (1 / 2)])
           connectedHook)) = Some False"
proof -
  have h: "maxReconnectAttempts defaultConfig = 5" "rendered connectedHook = latest connectedHook"
    "isConnected (latest connectedHook)" "reconnectAttempts (latest connectedHook) = 0"
    "length fives = 5"
    by (simp_all add: defaultConfig_values connectedHook_fields freshlyConnected_fields fives_def)
  from C5_sixth_disconnect_is_terminal [OF h, of "1 / 2"] h show ?thesis
    by (simp add: eval_defs handleError_def)
qed

section \<open>The attempt counter and the reconnecting flag over all steps\<close>



lemma run_Cons_Inr:
  assumes "run cfg client (e # es) h = Inr (h', outs)"
  obtains h1 out outs1 where "step cfg client e h = Inr (h1, out)"
    and "run cfg client es h1 = Inr (h', outs1)"
    and "outs = (case out of None \<Rightarrow> [] | Some d \<Rightarrow> [d]) @ outs1"
  using assms by (auto split: sum.splits prod.splits simp del: step.simps)



lemma reach_oneAttemptHook:
  "run defaultConfig True [Render, Disconnected (1 / 2)] (mount ''connected'') =
     Inr (oneAttemptHook, [1500])"
  by (simp add: oneAttemptHook_def eval_defs)




lemma connectedInv_mount: "connectedInv (connectedValue t0) (mount t0)"
  by (auto simp: connectedInv_def mount_def onTransportState_def initialState_def Let_def
        connectedValue_def)

lemma onTransportState_empty: "onTransportState [] s = s"
  by (simp add: onTransportState_def)

lemma onTransportState_fields:
  assumes "t \<noteq> []"
  shows "isConnected (onTransportState t s) = connectedValue t"
    and "transportState (onTransportState t s) = t"
    and "isReconnecting (onTransportState t s) \<longleftrightarrow> isReconnecting s \<and> t = ''connecting''"
  using assms by (auto simp: onTransportState_def Let_def connectedValue_def)

lemma handleDisconnect_fields:
  "isConnected (fst (handleDisconnect cfg r c s)) = isConnected s"
  "transportState (fst (handleDisconnect cfg r c s)) = transportState s"
  "isReconnecting (fst (handleDisconnect cfg r c s)) \<Longrightarrow> isReconnecting s \<or> isConnected c"
  by (auto simp: handleDisconnect_def Let_def split: if_splits)

lemma reconnectFailed_fields:
  assumes "reconnectFailed err s = Inr s'"
  shows "isConnected s' = isConnected s" "transportState s' = transportState s"
    "isReconnecting s' = isReconnecting s"
  using assms by (auto simp: reconnectFailed_def split: sum.splits)

lemma connectRejected_fields:
  assumes "connectRejected err s = Inr s'"
  shows "isConnected s' = isConnected s" "transportState s' = transportState s"
    "isReconnecting s' = isReconnecting s"
  using assms by (auto simp: connectRejected_def split: sum.splits)

lemma connectedInv_step:
  assumes "connectedInv ever h" "step cfg client e h = Inr (h', out)"
  shows "connectedInv (ever \<or> reportsConnected e) h'"
proof (cases e)
  case Render
  then show ?thesis
    using assms by (auto simp: connectedInv_def reportsConnected_def)
next
  case (TransportStateChanged t)
  show ?thesis
  proof (cases "t = transportValue h")
    case True
    then show ?thesis
      using assms TransportStateChanged by (auto simp: connectedInv_def)
  next
    case False
    then have h': "h' = h\<lparr>rendered := latest h, latest := onTransportState t (latest h),
                          transportValue := t\<rparr>"
      using assms(2) TransportStateChanged by simp
    show ?thesis
    proof (cases "t = []")
      case True
      then show ?thesis
        using assms(1) h' by (auto simp: connectedInv_def onTransportState_empty)
    next
      case False
      then show ?thesis
        using assms(1) h' TransportStateChanged
        by (auto simp: connectedInv_def onTransportState_fields reportsConnected_def
              connectedValue_def)
    qed
  qed
next
  case (Disconnected r)
  show ?thesis
  proof (cases client)
    case True
    then have h': "h' = h\<lparr>latest := fst (handleDisconnect cfg r (rendered h) (latest h))\<rparr>"
      using assms(2) Disconnected by (auto split: prod.splits)
    show ?thesis
      using assms(1) handleDisconnect_fields(3) [of cfg r "rendered h" "latest h"]
      by (auto simp: h' connectedInv_def handleDisconnect_fields(1,2))
  next
    case False
    then show ?thesis
      using assms Disconnected by (auto simp: connectedInv_def)
  qed
next
  case (ErrorEvent err)
  then show ?thesis
    using assms by (auto simp: connectedInv_def handleError_def split: if_splits)
next
  case (ReconnectRejected err)
  then show ?thesis
    using assms
    by (auto simp: connectedInv_def reconnectFailed_fields split: if_splits sum.splits)
next
  case ConnectCalled
  then show ?thesis
    using assms by (auto simp: connectedInv_def connectStarted_def split: if_splits)
next
  case ConnectResolved
  then show ?thesis
    using assms by (auto simp: connectedInv_def connectResolved_def split: if_splits)
next
  case (ConnectRejected err)
  then show ?thesis
    using assms
    by (auto simp: connectedInv_def connectRejected_fields split: if_splits sum.splits)
next
  case DisconnectResolved
  then show ?thesis
    using assms by (auto simp: connectedInv_def disconnectResolved_def split: if_splits)
next
  case DisconnectRejected
  then show ?thesis
    using assms by (auto simp: connectedInv_def)
next
  case ClearError
  then show ?thesis
    using assms by (auto simp: connectedInv_def clearError_def)
qed

lemma connectedInv_run:
  "connectedInv ever h \<Longrightarrow> run cfg client es h = Inr (h', outs) \<Longrightarrow>
   connectedInv (ever \<or> list_ex reportsConnected es) h'"
proof (induction es arbitrary: ever h outs)
  case Nil
  then show ?case by simp
next
  case (Cons e es)
  from Cons.prems(2) obtain h1 out outs1 where
    st: "step cfg client e h = Inr (h1, out)" and rn: "run cfg client es h1 = Inr (h', outs1)"
    by (rule run_Cons_Inr)
  have "connectedInv ((ever \<or> reportsConnected e) \<or> list_ex reportsConnected es) h'"
    using Cons.IH [OF connectedInv_step [OF Cons.prems(1) st] rn] .
  then show ?case
    by (simp add: disj_assoc)
qed

lemma step_raises_flag:
  assumes "\<not> isReconnecting (latest h)" "step cfg client e h = Inr (h', out)"
    "isReconnecting (latest h')"
  shows "(\<exists>rnd. e = Disconnected rnd) \<and> isConnected (rendered h)"
  using assms
  by (cases e)
     (auto simp: onTransportState_def handleDisconnect_def Let_def handleError_def
        reconnectFailed_def connectStarted_def connectResolved_def connectRejected_def
        disconnectResolved_def clearError_def split: if_splits sum.splits)

text \<open>
  Claim C7, as stated, fails: the disconnect handler sets the reconnecting flag while the
  transport state is still \<^verbatim>\<open>connected\<close>. After a mount on a connected transport, a render
  and one disconnect event, the flag is set and the transport state is \<^verbatim>\<open>connected\<close>, not
  \<^verbatim>\<open>connecting\<close>.
\<close>

theorem C7_counterexample:
  "map_option isReconnecting (stateAfter (run defaultConfig True
       [Render, Disconnected (1 / 2)] (mount ''connected''))) = Some True
   \<and> map_option transportState (stateAfter (run defaultConfig True
       [Render, Disconnected (1 / 2)] (mount ''connected''))) = Some ''connected''
   \<and> ''connected'' \<noteq> ''connecting''"
  by (simp add: eval_defs)

text \<open>
  Claim C7, amended. In every state reached from the mount, the reconnecting flag is set
  only if a prior successful connection existed: the transport reported \<^verbatim>\<open>connected\<close> or
  \<^verbatim>\<open>ready\<close> at mount or in an earlier event. The flag is raised only by a disconnect event
  whose handler saw a connected state, with a raw transport state of \<^verbatim>\<open>connected\<close> or
  \<^verbatim>\<open>ready\<close>, at its render; and when the raw transport state changes, the flag stays set
  only if it was set and the new state is \<^verbatim>\<open>connecting\<close>.
\<close>

theorem C7_reconnecting_invariant:
  assumes "run cfg client es (mount t0) = Inr (h, outs)"
    and "step cfg client e h = Inr (h', out)"
  shows "(isReconnecting (latest h) \<longrightarrow> priorConnection t0 es)
   \<and> (\<not> isReconnecting (latest h) \<and> isReconnecting (latest h') \<longrightarrow>
        (\<exists>rnd. e = Disconnected rnd) \<and> isConnected (rendered h) \<and>
        connectedValue (transportState (rendered h)))
   \<and> (\<forall>t. e = TransportStateChanged t \<and> t \<noteq> transportValue h \<and> t \<noteq> [] \<and>
            isReconnecting (latest h') \<longrightarrow>
          t = ''connecting'' \<and> isReconnecting (latest h))"
proof -
  have inv: "connectedInv (priorConnection t0 es) h"
    using connectedInv_run [OF connectedInv_mount assms(1)]
    by (simp add: priorConnection_def)
  have 1: "isReconnecting (latest h) \<longrightarrow> priorConnection t0 es"
    using inv by (simp add: connectedInv_def)
  have 2: "\<not> isReconnecting (latest h) \<and> isReconnecting (latest h') \<longrightarrow>
        (\<exists>rnd. e = Disconnected rnd) \<and> isConnected (rendered h) \<and>
        connectedValue (transportState (rendered h))"
    using step_raises_flag [OF _ assms(2)] inv
    by (auto simp: connectedInv_def connectedValue_def)
  have 3: "\<forall>t. e = TransportStateChanged t \<and> t \<noteq> transportValue h \<and> t \<noteq> [] \<and>
            isReconnecting (latest h') \<longrightarrow>
          t = ''connecting'' \<and> isReconnecting (latest h)"
    using assms(2) by (auto simp: onTransportState_def Let_def split: if_splits)
  show ?thesis
    using 1 2 3 by blast
qed

theorem C7_reconnecting_invariant_witness:
  "run defaultConfig True [Render, Disconnected (1 / 2)] (mount ''connected'') =
     Inr (oneAttemptHook, [1500])
   \<and> isReconnecting (latest oneAttemptHook)
   \<and> priorConnection ''connected'' [Render, Disconnected (1 / 2)]
   \<and> \<not> isReconnecting (latest connectedHook)
   \<and> step defaultConfig True (Disconnected (1 / 2)) connectedHook = Inr (oneAttemptHook, Some 1500)
   \<and> connectedValue (transportState (rendered connectedHook))
   \<and> map_option isReconnecting (stateAfter
        (step defaultConfig True (TransportStateChanged ''connecting'') oneAttemptHook)) = Some True
   \<and> map_option isReconnecting (stateAfter
        (step defaultConfig True (TransportStateChanged ''disconnected'') oneAttemptHook)) = Some False"
proof -
  let ?connecting = "oneAttemptHook\<lparr>rendered := latest oneAttemptHook,
             latest := onTransportState ''connecting'' (latest oneAttemptHook),
             transportValue := ''connecting''\<rparr>"
  let ?disconnected = "oneAttemptHook\<lparr>rendered := latest oneAttemptHook,
             latest := onTransportState ''disconnected'' (latest oneAttemptHook),
             transportValue := ''disconnected''\<rparr>"
  have tv: "transportValue oneAttemptHook = ''connected''"
    and flag: "isReconnecting (latest oneAttemptHook)"
    and noflag: "\<not> isReconnecting (latest connectedHook)"
    by (simp_all add: oneAttemptHook_def connectedHook_def freshlyConnected_fields)
  have r0: "run defaultConfig True [Render] (mount ''connected'') = Inr (connectedHook, [])"
    by (simp add: mount_connected connectedHook_def)
  have s0: "step defaultConfig True (Disconnected (1 / 2)) connectedHook =
              Inr (oneAttemptHook, Some 1500)"
    by (simp add: oneAttemptHook_def eval_defs)
  have a: "step defaultConfig True (TransportStateChanged ''connecting'') oneAttemptHook =
      Inr (?connecting, None)"
    by (simp add: tv)
  have b: "step defaultConfig True (TransportStateChanged ''disconnected'') oneAttemptHook =
      Inr (?disconnected, None)"
    by (simp add: tv)
  have prior: "priorConnection ''connected'' [Render, Disconnected (1 / 2)]"
    using C7_reconnecting_invariant [OF reach_oneAttemptHook a] flag by blast
  have seen: "connectedValue (transportState (rendered connectedHook))"
    using C7_reconnecting_invariant [OF r0 s0] flag noflag by blast
  have fa: "isReconnecting (latest ?connecting)"
    using flag by (simp add: onTransportState_def Let_def)
  have fb: "\<not> isReconnecting (latest ?disconnected)"
    using C7_reconnecting_invariant [OF reach_oneAttemptHook b] tv by auto
  show ?thesis
    using reach_oneAttemptHook flag prior noflag s0 seen fa fb
    by (simp only: a b stateAfter_def sum.case prod.case option.map simp_thms)
qed

section \<open>Transcripts: the out-of-band channel and the transcript events\<close>

lemma isDuplicate_iff:
  "isDuplicate update ts entries \<longleftrightarrow>
     duplicateExists (content update) (speakerOf (role update)) ts entries"
  by (auto simp: isDuplicate_def duplicateExists_def withinTolerance_def list_ex_iff
        split: option.splits)

lemma transcripts_handleTranscriptUpdate:
  "transcripts (handleTranscriptUpdate getTime update c) =
     (if isDuplicate update (getTime (timestampISO update)) (transcripts c) then transcripts c
      else transcripts c @ [entryOf getTime update])"
  by (simp add: handleTranscriptUpdate_def Let_def entryOf_def speakerOf_def)

lemma duplicateExists_append:
  "duplicateExists txt sp ts (xs @ ys) \<longleftrightarrow> duplicateExists txt sp ts xs \<or> duplicateExists txt sp ts ys"
  by (auto simp: duplicateExists_def)

lemma duplicateExists_self:
  "getTime (timestampISO update) = Some T \<Longrightarrow>
   duplicateExists (content update) (speakerOf (role update)) (Some T) [entryOf getTime update]"
  by (simp add: duplicateExists_def entryOf_def)

text \<open>
  Claim C8. The out-of-band handler leaves the log unchanged exactly when the duplicate
  rule finds an existing entry with the same text, the same speaker and a time stamp less
  than 1000 ms from the candidate's, and otherwise appends the candidate's entry. Hence an
  update with a valid time stamp \<open>T\<close> that has no duplicate in the log, submitted twice in a
  row, appends exactly one entry; an update at \<open>T + 999\<close> ms is not appended when the log
  holds an entry of the same text and speaker at \<open>T\<close>; and an update at \<open>T + 1001\<close> ms is
  appended when every entry of the same text and speaker in the log is at \<open>T\<close>.
\<close>

theorem C8_dedup_rule:
  "(transcripts (handleTranscriptUpdate getTime update c) = transcripts c \<longleftrightarrow>
      duplicateExists (content update) (speakerOf (role update))
        (getTime (timestampISO update)) (transcripts c))
   \<and> (\<not> duplicateExists (content update) (speakerOf (role update))
          (getTime (timestampISO update)) (transcripts c) \<longrightarrow>
        transcripts (handleTranscriptUpdate getTime update c) =
          transcripts c @ [entryOf getTime update])
   \<and> (getTime (timestampISO update) = Some T \<and>
        \<not> duplicateExists (content update) (speakerOf (role update)) (Some T) (transcripts c) \<longrightarrow>
        transcripts (handleTranscriptUpdate getTime update
                       (handleTranscriptUpdate getTime update c)) =
          transcripts c @ [entryOf getTime update])
   \<and> (e \<in> set (transcripts c) \<and> text e = content update \<and> speaker e = speakerOf (role update) \<and>
        timestamp e = Some T \<and> getTime (timestampISO update) = Some (T + 999) \<longrightarrow>
        transcripts (handleTranscriptUpdate getTime update c) = transcripts c)
   \<and> ((\<forall>t \<in> set (transcripts c). text t = content update \<and> speaker t = speakerOf (role update) \<longrightarrow>
           timestamp t = Some T) \<and>
        getTime (timestampISO update) = Some (T + 1001) \<longrightarrow>
        transcripts (handleTranscriptUpdate getTime update c) =
          transcripts c @ [entryOf getTime update])"
proof (intro conjI impI)
  show "transcripts (handleTranscriptUpdate getTime update c) = transcripts c \<longleftrightarrow>
      duplicateExists (content update) (speakerOf (role update))
        (getTime (timestampISO update)) (transcripts c)"
    by (simp add: transcripts_handleTranscriptUpdate isDuplicate_iff)
next
  assume "\<not> duplicateExists (content update) (speakerOf (role update))
          (getTime (timestampISO update)) (transcripts c)"
  then show "transcripts (handleTranscriptUpdate getTime update c) =
          transcripts c @ [entryOf getTime update]"
    by (simp add: transcripts_handleTranscriptUpdate isDuplicate_iff)
next
  assume a: "getTime (timestampISO update) = Some T \<and>
        \<not> duplicateExists (content update) (speakerOf (role update)) (Some T) (transcripts c)"
  then have first: "transcripts (handleTranscriptUpdate getTime update c) =
          transcripts c @ [entryOf getTime update]"
    by (simp add: transcripts_handleTranscriptUpdate isDuplicate_iff)
  have "duplicateExists (content update) (speakerOf (role update)) (Some T)
          (transcripts c @ [entryOf getTime update])"
    using a duplicateExists_self [of getTime update T] by (simp add: duplicateExists_append)
  then show "transcripts (handleTranscriptUpdate getTime update
                       (handleTranscriptUpdate getTime update c)) =
          transcripts c @ [entryOf getTime update]"
    using a by (simp add: transcripts_handleTranscriptUpdate [of getTime update "handleTranscriptUpdate getTime update c"]
          first isDuplicate_iff)
next
  assume a: "e \<in> set (transcripts c) \<and> text e = content update \<and>
        speaker e = speakerOf (role update) \<and>
        timestamp e = Some T \<and> getTime (timestampISO update) = Some (T + 999)"
  then have "duplicateExists (content update) (speakerOf (role update)) (Some (T + 999))
          (transcripts c)"
    unfolding duplicateExists_def by (intro bexI [of _ e]) simp_all
  then show "transcripts (handleTranscriptUpdate getTime update c) = transcripts c"
    using a by (simp add: transcripts_handleTranscriptUpdate isDuplicate_iff)
next
  assume a: "(\<forall>t \<in> set (transcripts c). text t = content update \<and> speaker t = speakerOf (role update) \<longrightarrow>
           timestamp t = Some T) \<and>
        getTime (timestampISO update) = Some (T + 1001)"
  then have "\<not> duplicateExists (content update) (speakerOf (role update)) (Some (T + 1001))
          (transcripts c)"
    by (auto simp: duplicateExists_def)
  then show "transcripts (handleTranscriptUpdate getTime update c) =
          transcripts c @ [entryOf getTime update]"
    using a by (simp add: transcripts_handleTranscriptUpdate isDuplicate_iff)
qed

lemmas example_defs =
  handleTranscriptUpdate_def isDuplicate_def withinTolerance_def speakerOf_def entryOf_def
  duplicateExists_def clock_def hello_def initialContext_def Let_def

theorem C8_dedup_rule_witness:
  "transcripts (handleTranscriptUpdate clock (hello ''1970-01-01T00:00:05.000Z'')
      (handleTranscriptUpdate clock (hello ''1970-01-01T00:00:05.000Z'') initialContext)) =
     [entryOf clock (hello ''1970-01-01T00:00:05.000Z'')]
   \<and> transcripts (handleTranscriptUpdate clock (hello ''1970-01-01T00:00:05.999Z'')
      (handleTranscriptUpdate clock (hello ''1970-01-01T00:00:05.000Z'') initialContext)) =
     [entryOf clock (hello ''1970-01-01T00:00:05.000Z'')]
   \<and> transcripts (handleTranscriptUpdate clock (hello ''1970-01-01T00:00:06.001Z'')
      (handleTranscriptUpdate clock (hello ''1970-01-01T00:00:05.000Z'') initialContext)) =
     [entryOf clock (hello ''1970-01-01T00:00:05.000Z''),
      entryOf clock (hello ''1970-01-01T00:00:06.001Z'')]"
  using C8_dedup_rule [where getTime = clock and update = "hello ''1970-01-01T00:00:05.000Z''"
      and c = initialContext and T = 5000]
    C8_dedup_rule [where getTime = clock and update = "hello ''1970-01-01T00:00:05.999Z''"
      and c = "handleTranscriptUpdate clock (hello ''1970-01-01T00:00:05.000Z'') initialContext"
      and T = 5000 and e = "entryOf clock (hello ''1970-01-01T00:00:05.000Z'')"]
    C8_dedup_rule [where getTime = clock and update = "hello ''1970-01-01T00:00:06.001Z''"
      and c = "handleTranscriptUpdate clock (hello ''1970-01-01T00:00:05.000Z'') initialContext"
      and T = 5000]
  by (simp add: example_defs)

text \<open>
  Claim C9. A user transcript event with non-empty text and \<open>final = true\<close> appends one
  entry and sets the last-user-utterance pointer; every other user transcript event (not
  final, or text empty or missing, or no payload) leaves the whole context unchanged. A bot
  transcript event with non-empty text appends one entry marked final and sets the
  last-bot-utterance pointer; one with empty or missing text, or no payload, leaves the
  whole context unchanged.
\<close>

theorem C9_transcript_events:
  "(dataText d = Some str \<and> str \<noteq> [] \<and> dataFinal d = Some True \<longrightarrow>
      ingestEvent now (UserTranscript (Some d)) c =
        c\<lparr>lastUserTranscript := Some str,
          transcripts := transcripts c @
            [\<lparr>text = str, speaker = User, timestamp = Some now, final = Some True\<rparr>]\<rparr>)
   \<and> (\<not> (truthyString (dataText d) \<and> dataFinal d = Some True) \<longrightarrow>
        ingestEvent now (UserTranscript (Some d)) c = c)
   \<and> ingestEvent now (UserTranscript None) c = c
   \<and> (dataText d = Some str \<and> str \<noteq> [] \<longrightarrow>
        ingestEvent now (BotTranscript (Some d)) c =
          c\<lparr>lastBotTranscript := Some str,
            transcripts := transcripts c @
              [\<lparr>text = str, speaker = Bot, timestamp = Some now, final = Some True\<rparr>]\<rparr>)
   \<and> (\<not> truthyString (dataText d) \<longrightarrow> ingestEvent now (BotTranscript (Some d)) c = c)
   \<and> ingestEvent now (BotTranscript None) c = c"
  by (cases "dataFinal d")
     (auto simp: handleUserTranscript_def handleBotTranscript_def truthyString_def
        truthyBool_def Let_def split: option.splits)

theorem C9_transcript_events_witness:
  "ingestEvent 7 (UserTranscript (Some \<lparr>dataText = Some ''hi'', dataFinal = Some True\<rparr>))
      initialContext =
     initialContext\<lparr>lastUserTranscript := Some ''hi'',
       transcripts := [\<lparr>text = ''hi'', speaker = User, timestamp = Some 7, final = Some True\<rparr>]\<rparr>
   \<and> ingestEvent 7 (UserTranscript (Some \<lparr>dataText = Some ''hi'', dataFinal = Some False\<rparr>))
      initialContext = initialContext
   \<and> ingestEvent 7 (UserTranscript (Some \<lparr>dataText = Some [], dataFinal = Some True\<rparr>))
      initialContext = initialContext
   \<and> ingestEvent 7 (BotTranscript (Some \<lparr>dataText = Some ''hi'', dataFinal = None\<rparr>))
      initialContext =
     initialContext\<lparr>lastBotTranscript := Some ''hi'',
       transcripts := [\<lparr>text = ''hi'', speaker = Bot, timestamp = Some 7, final = Some True\<rparr>]\<rparr>
   \<and> ingestEvent 7 (BotTranscript (Some \<lparr>dataText = None, dataFinal = None\<rparr>))
      initialContext = initialContext"
  using C9_transcript_events [where d = "\<lparr>dataText = Some ''hi'', dataFinal = Some True\<rparr>"
      and str = "''hi''" and now = 7 and c = initialContext]
    C9_transcript_events [where d = "\<lparr>dataText = Some ''hi'', dataFinal = Some False\<rparr>"
      and now = 7 and c = initialContext]
    C9_transcript_events [where d = "\<lparr>dataText = Some [], dataFinal = Some True\<rparr>"
      and now = 7 and c = initialContext]
    C9_transcript_events [where d = "\<lparr>dataText = Some ''hi'', dataFinal = None\<rparr>"
      and str = "''hi''" and now = 7 and c = initialContext]
    C9_transcript_events [where d = "\<lparr>dataText = None, dataFinal = None\<rparr>"
      and now = 7 and c = initialContext]
  by (simp add: truthyString_def initialContext_def del: ingestEvent.simps)

text \<open>
  Claim C10. The out-of-band handler sets the last-bot-utterance pointer to the content of
  every assistant update and the last-user-utterance pointer to the content of every user
  update, whatever the log holds; in particular when the update is a duplicate, the log is
  unchanged and the pointer is set all the same.
\<close>

theorem C10_pointer_set_unconditionally:
  "(role update = RoleAssistant \<longrightarrow>
      lastBotTranscript (handleTranscriptUpdate getTime update c) = Some (content update))
   \<and> (role update = RoleUser \<longrightarrow>
      lastUserTranscript (handleTranscriptUpdate getTime update c) = Some (content update))
   \<and> (isDuplicate update (getTime (timestampISO update)) (transcripts c) \<longrightarrow>
      transcripts (handleTranscriptUpdate getTime update c) = transcripts c \<and>
      (if role update = RoleAssistant
       then lastBotTranscript (handleTranscriptUpdate getTime update c)
       else lastUserTranscript (handleTranscriptUpdate getTime update c)) = Some (content update))"
  by (cases "role update") (simp_all add: handleTranscriptUpdate_def Let_def)

theorem C10_pointer_set_unconditionally_witness:
  "lastUserTranscript afterBye = Some ''bye''
   \<and> isDuplicate (hello ''1970-01-01T00:00:05.999Z'') (clock ''1970-01-01T00:00:05.999Z'')
        (transcripts afterBye)
   \<and> transcripts (handleTranscriptUpdate clock (hello ''1970-01-01T00:00:05.999Z'') afterBye) =
        transcripts afterBye
   \<and> lastUserTranscript (handleTranscriptUpdate clock (hello ''1970-01-01T00:00:05.999Z'') afterBye) =
        Some ''hello''
   \<and> lastBotTranscript
        (handleTranscriptUpdate clock
           \<lparr>role = RoleAssistant, content = ''welcome'', timestampISO = ''1970-01-01T00:00:05.000Z''\<rparr>
           afterBye) = Some ''welcome''"
  using C10_pointer_set_unconditionally [where getTime = clock
      and update = "hello ''1970-01-01T00:00:05.999Z''" and c = afterBye]
    C10_pointer_set_unconditionally [where getTime = clock
      and update = "\<lparr>role = RoleAssistant, content = ''welcome'',
                       timestampISO = ''1970-01-01T00:00:05.000Z''\<rparr>" and c = afterBye]
  by (simp add: example_defs afterBye_def addTranscript_def)

end
